theory Spec2Isabelle
  imports Complex_Main
begin

section \<open>JavaScript values and objects\<close>

text \<open>
  The values that \<^verbatim>\<open>response.json()\<close> can produce, plus \<^verbatim>\<open>undefined\<close> and the
  built-in members that every plain object inherits from \<^verbatim>\<open>Object.prototype\<close>.
  Strings are byte strings (the UTF-8 encoding of the JavaScript string). A finite number
  is carried by its exact value; the program only tests numbers for truthiness and passes
  them on. An object is the list of its own properties in creation order.
\<close>

datatype jsval =
    JUndefined
  | JNull
  | JBool bool
  | JNum rat
  | JInfinity bool
  | JStr string
  | JArr "jsval list"
  | JObj "(string \<times> jsval) list"
  | JBuiltin string

type_synonym jsobj = "(string \<times> jsval) list"

text \<open>ToBoolean: \<^verbatim>\<open>undefined\<close>, \<^verbatim>\<open>null\<close>, \<^verbatim>\<open>false\<close>, zero and the empty string are falsy.\<close>

fun truthy :: "jsval \<Rightarrow> bool" where
  "truthy JUndefined = False"
| "truthy JNull = False"
| "truthy (JBool b) = b"
| "truthy (JNum r) = (r \<noteq> 0)"
| "truthy (JInfinity neg) = True"
| "truthy (JStr s) = (s \<noteq> [])"
| "truthy (JArr vs) = True"
| "truthy (JObj ps) = True"
| "truthy (JBuiltin n) = True"

text \<open>The operator \<^verbatim>\<open>a || b\<close>: the left operand when it is truthy, else the right one.\<close>

definition js_or :: "jsval \<Rightarrow> jsval \<Rightarrow> jsval" where
  "js_or a b = (if truthy a then a else b)"

text \<open>The property names a plain object inherits from \<^verbatim>\<open>Object.prototype\<close>.\<close>

definition Object_prototype :: "string list" where
  "Object_prototype =
     [''constructor'', ''hasOwnProperty'', ''isPrototypeOf'', ''propertyIsEnumerable'',
      ''toLocaleString'', ''toString'', ''valueOf'', ''__proto__'',
      ''__defineGetter__'', ''__defineSetter__'', ''__lookupGetter__'', ''__lookupSetter__'']"

text \<open>
  \<^verbatim>\<open>obj[k]\<close> on a plain object: the own property when there is one, else the inherited
  built-in, else \<^verbatim>\<open>undefined\<close>.
\<close>

definition get_prop :: "jsobj \<Rightarrow> string \<Rightarrow> jsval" where
  "get_prop obj k =
     (case map_of obj k of
        Some v \<Rightarrow> v
      | None \<Rightarrow> if k \<in> set Object_prototype then JBuiltin k else JUndefined)"

text \<open>\<^verbatim>\<open>k in obj\<close>: the object has the property, own or inherited.\<close>

definition has_property :: "jsobj \<Rightarrow> string \<Rightarrow> bool" where
  "has_property obj k = (k \<in> fst ` set obj \<or> k \<in> set Object_prototype)"

section \<open>Configuration\<close>

text \<open>
  The \<^verbatim>\<open>responseMapping\<close> table: for each logical field the upstream field name, or
  no entry. A configuration holds the connection parameters and the table, which may be
  absent.
\<close>

record response_mapping =
  title :: "string option"
  date :: "string option"
  explanation :: "string option"
  url :: "string option"
  hdurl :: "string option"
  mediaType :: "string option"
  copyright :: "string option"

record config =
  baseUrl :: string
  apiKey :: string
  dateParam :: string
  apiKeyParam :: string
  responseMapping :: "response_mapping option"

text \<open>
  A property key taken from the table: a missing entry reads as \<^verbatim>\<open>undefined\<close>, which
  as a property key is the string \<^verbatim>\<open>"undefined"\<close>.
\<close>

definition property_key :: "string option \<Rightarrow> string" where
  "property_key e = (case e of None \<Rightarrow> ''undefined'' | Some k \<Rightarrow> k)"

text \<open>The two profiles of the configuration file and the built-in default.\<close>

definition nasa_mapping :: response_mapping where
  "nasa_mapping =
     \<lparr>title = Some ''title'', date = Some ''date'', explanation = Some ''explanation'',
      url = Some ''url'', hdurl = Some ''hdurl'', mediaType = Some ''media_type'',
      copyright = Some ''copyright''\<rparr>"

definition custom_mapping :: response_mapping where
  "custom_mapping =
     \<lparr>title = Some ''picture_title'', date = Some ''picture_date'',
      explanation = Some ''description'', url = Some ''image_url'',
      hdurl = Some ''high_res_url'', mediaType = Some ''type'',
      copyright = Some ''credit''\<rparr>"

definition defaultConfig :: config where
  "defaultConfig =
     \<lparr>baseUrl = ''https://api.nasa.gov/planetary/apod'', apiKey = ''DEMO_KEY'',
      dateParam = ''date'', apiKeyParam = ''api_key'',
      responseMapping = Some nasa_mapping\<rparr>"

definition custom_config :: config where
  "custom_config =
     \<lparr>baseUrl = ''https://your-api.com/astronomy'', apiKey = ''your-api-key-here'',
      dateParam = ''date'', apiKeyParam = ''key'',
      responseMapping = Some custom_mapping\<rparr>"

section \<open>Response normalization\<close>

text \<open>
  \<^verbatim>\<open>transformResponse(data)\<close>: without a mapping the raw object is returned as it is;
  with one, a fresh object of seven properties is built, each from the mapped field or,
  when that is falsy, from the same-named field; \<^verbatim>\<open>media_type\<close> has the further
  default \<^verbatim>\<open>'image'\<close>.
\<close>

definition transformResponse :: "config \<Rightarrow> jsobj \<Rightarrow> jsobj" where
  "transformResponse cfg raw =
     (case responseMapping cfg of
        None \<Rightarrow> raw
      | Some mapping \<Rightarrow>
          [(''title'', js_or (get_prop raw (property_key (title mapping))) (get_prop raw ''title'')),
           (''date'', js_or (get_prop raw (property_key (date mapping))) (get_prop raw ''date'')),
           (''explanation'',
              js_or (get_prop raw (property_key (explanation mapping))) (get_prop raw ''explanation'')),
           (''url'', js_or (get_prop raw (property_key (url mapping))) (get_prop raw ''url'')),
           (''hdurl'', js_or (get_prop raw (property_key (hdurl mapping))) (get_prop raw ''hdurl'')),
           (''media_type'',
              js_or (js_or (get_prop raw (property_key (mediaType mapping)))
                           (get_prop raw ''media_type''))
                    (JStr ''image'')),
           (''copyright'',
              js_or (get_prop raw (property_key (copyright mapping))) (get_prop raw ''copyright''))])"

section \<open>Building the request URL\<close>

text \<open>
  The serializer of \<^verbatim>\<open>URLSearchParams.toString()\<close> (application/x-www-form-urlencoded):
  ASCII letters and digits and the bytes \<^verbatim>\<open>* - . _\<close> stay, a space becomes \<^verbatim>\<open>+\<close>, every
  other byte becomes \<^verbatim>\<open>%\<close> and two upper-case hexadecimal digits; pairs are written
  \<^verbatim>\<open>name=value\<close> and joined with \<^verbatim>\<open>&\<close>.
\<close>

definition is_digit :: "char \<Rightarrow> bool" where
  "is_digit c = (let n = (of_char c :: int) in 48 \<le> n \<and> n \<le> 57)"

definition is_alpha :: "char \<Rightarrow> bool" where
  "is_alpha c = (let n = (of_char c :: int) in (65 \<le> n \<and> n \<le> 90) \<or> (97 \<le> n \<and> n \<le> 122))"

definition hex_digit :: "nat \<Rightarrow> char" where
  "hex_digit n = ''0123456789ABCDEF'' ! (n mod 16)"

definition urlencode_byte :: "char \<Rightarrow> string" where
  "urlencode_byte c =
     (if is_alpha c \<or> is_digit c \<or> c \<in> set ''*-._'' then [c]
      else if c = CHR '' '' then ''+''
      else [CHR ''%'', hex_digit ((of_char c :: nat) div 16), hex_digit ((of_char c :: nat) mod 16)])"

definition urlencode :: "string \<Rightarrow> string" where
  "urlencode s = concat (map urlencode_byte s)"

fun join_strings :: "string \<Rightarrow> string list \<Rightarrow> string" where
  "join_strings sep [] = []"
| "join_strings sep [x] = x"
| "join_strings sep (x # y # ys) = x @ sep @ join_strings sep (y # ys)"

definition urlencoded_serialize :: "(string \<times> string) list \<Rightarrow> string" where
  "urlencoded_serialize ps =
     join_strings ''&'' (map (\<lambda>(k, v). urlencode k @ ''='' @ urlencode v) ps)"

text \<open>
  An object literal with computed keys defines its properties one after the other: a key
  that is already there keeps its place and takes the new value. The own keys of an object
  are then enumerated with the array indices first, in ascending numeric order, and the
  other keys in creation order. An array index is the canonical decimal numeral of an
  integer below \<open>2\<^sup>3\<^sup>2 - 1\<close>.
\<close>

fun define_property :: "(string \<times> 'a) list \<Rightarrow> string \<Rightarrow> 'a \<Rightarrow> (string \<times> 'a) list" where
  "define_property [] k v = [(k, v)]"
| "define_property ((k', v') # ps) k v =
     (if k' = k then (k, v) # ps else (k', v') # define_property ps k v)"

definition digits_value :: "string \<Rightarrow> int" where
  "digits_value s = foldl (\<lambda>a c. 10 * a + ((of_char c :: int) - 48)) 0 s"

definition is_array_index :: "string \<Rightarrow> bool" where
  "is_array_index k =
     (k \<noteq> [] \<and> list_all is_digit k \<and> (if hd k = CHR ''0'' then k = ''0'' else True) \<and>
      digits_value k < 4294967295)"

definition own_entries :: "(string \<times> 'a) list \<Rightarrow> (string \<times> 'a) list" where
  "own_entries ps =
     sort_key (\<lambda>p. digits_value (fst p)) (filter (\<lambda>p. is_array_index (fst p)) ps) @
     filter (\<lambda>p. \<not> is_array_index (fst p)) ps"

text \<open>
  \<^verbatim>\<open>buildApiUrl(date)\<close>: the parameters are the own entries of the object literal
  \<^verbatim>\<open>{[dateParam]: date, [apiKeyParam]: apiKey}\<close>.
\<close>

definition url_params :: "config \<Rightarrow> string \<Rightarrow> (string \<times> string) list" where
  "url_params cfg d =
     own_entries (define_property (define_property [] (dateParam cfg) d) (apiKeyParam cfg) (apiKey cfg))"

definition buildApiUrl :: "config \<Rightarrow> string \<Rightarrow> string" where
  "buildApiUrl cfg d = baseUrl cfg @ ''?'' @ urlencoded_serialize (url_params cfg d)"

section \<open>The fetch adapter\<close>

text \<open>
  An exception value with its \<^verbatim>\<open>message\<close>. A response carries the status line and what
  \<^verbatim>\<open>response.json()\<close> settles to: a rejection (the body is not JSON), or the parsed
  object; the upstream interface answers with a JSON object, and bodies that are JSON but
  not an object are outside this model. \<^verbatim>\<open>response.ok\<close> is true for the statuses 200 to
  299. The promise of \<^verbatim>\<open>fetch(url)\<close> is rejected on a
  transport error and fulfilled with a response otherwise.
\<close>

datatype js_error = JsError (errName: string) (message: string)

record response =
  status :: nat
  statusText :: string
  json :: "js_error + jsobj"

definition ok :: "response \<Rightarrow> bool" where
  "ok r = (200 \<le> status r \<and> status r \<le> 299)"

datatype fetch_outcome = Rejected js_error | Fulfilled response

text \<open>
  What the program's surroundings supply: the transport, which answers a request given the
  requests made before it; the engine's \<^verbatim>\<open>TypeError\<close> for a failed call of
  \<^verbatim>\<open>v.includes(...)\<close> on a value \<open>v\<close> without such a method; and its \<^verbatim>\<open>TypeError\<close>
  for a value \<open>v\<close> that cannot be converted to a primitive.
\<close>

record runtime =
  fetch :: "string list \<Rightarrow> string \<Rightarrow> fetch_outcome"
  includesTypeError :: "jsval \<Rightarrow> js_error"
  toPrimitiveTypeError :: "jsval \<Rightarrow> js_error"

text \<open>
  The effects outside the application state: the GET requests issued, the errors logged,
  whether the page has the demo button (\<^verbatim>\<open>#retry-btn\<close>), and whether the body of the
  page has been replaced by the start-up failure notice.
\<close>

record world =
  requests :: "string list"
  console :: "js_error list"
  retryButton :: bool
  bodyReplaced :: bool

fun show_nat :: "nat \<Rightarrow> string" where
  "show_nat n =
     (if n < 10 then [''0123456789'' ! n]
      else show_nat (n div 10) @ [''0123456789'' ! (n mod 10)])"

declare show_nat.simps [simp del]

text \<open>
  \<^verbatim>\<open>handleApiError(response)\<close>: the table's message for the status, else the generic
  text (every message of the table is non-empty, so \<^verbatim>\<open>||\<close> takes it whenever it is
  there).
\<close>

definition errorMessages :: "nat \<rightharpoonup> string" where
  "errorMessages =
     [429 \<mapsto> ''Rate limit exceeded. Get your free NASA API key at: https://api.nasa.gov/'',
      403 \<mapsto> ''API access forbidden. Please check your API key in config.js'',
      404 \<mapsto> ''Picture not found for the selected date'',
      500 \<mapsto> ''API server error. Please try again later'']"

definition handleApiError :: "response \<Rightarrow> js_error" where
  "handleApiError r =
     JsError ''Error''
       (case errorMessages (status r) of
          Some m \<Rightarrow> m
        | None \<Rightarrow> ''API request failed: '' @ show_nat (status r) @ '' '' @ statusText r)"

text \<open>
  \<^verbatim>\<open>fetchPictureData(date)\<close>. The part after \<^verbatim>\<open>await fetch(url)\<close> takes what the
  request settled to; whatever is thrown inside \<^verbatim>\<open>try\<close> is logged and thrown again.
\<close>

definition rethrow :: "js_error \<Rightarrow> world \<Rightarrow> (js_error + jsobj) \<times> world" where
  "rethrow e w = (Inl e, w\<lparr>console := console w @ [e]\<rparr>)"

definition fetchPictureData_resume ::
    "config \<Rightarrow> fetch_outcome \<Rightarrow> world \<Rightarrow> (js_error + jsobj) \<times> world" where
  "fetchPictureData_resume cfg outcome w =
     (case outcome of
        Rejected e \<Rightarrow> rethrow e w
      | Fulfilled r \<Rightarrow>
          if \<not> ok r then rethrow (handleApiError r) w
          else (case json r of
                  Inl e \<Rightarrow> rethrow e w
                | Inr rawData \<Rightarrow> (Inr (transformResponse cfg rawData), w)))"

definition fetchPictureData ::
    "runtime \<Rightarrow> config \<Rightarrow> string \<Rightarrow> world \<Rightarrow> (js_error + jsobj) \<times> world" where
  "fetchPictureData rt cfg d w =
     (let u = buildApiUrl cfg d
      in fetchPictureData_resume cfg (fetch rt (requests w) u) (w\<lparr>requests := requests w @ [u]\<rparr>))"

text \<open>
  \<^verbatim>\<open>AppUtils.validateApiResponse(response, requiredFields)\<close>: throws when a required
  field is falsy, else returns \<^verbatim>\<open>true\<close>. Nothing in the program calls it.
\<close>

definition requiredFields_default :: "string list" where
  "requiredFields_default = [''title'', ''url'']"

definition validateApiResponse :: "jsobj \<Rightarrow> string list \<Rightarrow> js_error + bool" where
  "validateApiResponse resp requiredFields =
     (let missing = filter (\<lambda>field. \<not> truthy (get_prop resp field)) requiredFields
      in if length missing > 0
         then Inl (JsError ''Error''
                (''Invalid API response: missing fields '' @ join_strings '', '' missing))
         else Inr True)"

section \<open>Application state\<close>

text \<open>
  The state object of \<^verbatim>\<open>AppState\<close>; \<^verbatim>\<open>null\<close> is \<open>None\<close>. The constructor takes the
  current date from the clock.
\<close>

record app_state =
  loading :: bool
  error :: "string option"
  currentPicture :: "jsobj option"
  selectedDate :: string

definition AppState_new :: "string \<Rightarrow> app_state" where
  "AppState_new today =
     \<lparr>loading = False, error = None, currentPicture = None, selectedDate = today\<rparr>"

text \<open>
  The argument of \<^verbatim>\<open>setState\<close> is an object literal naming some of the fields; the spread
  \<^verbatim>\<open>{ ...this.state, ...newState }\<close> copies the state and then stores each named field.
\<close>

datatype state_field =
    Loading bool
  | Error "string option"
  | CurrentPicture "jsobj option"
  | SelectedDate string

fun assign :: "state_field \<Rightarrow> app_state \<Rightarrow> app_state" where
  "assign (Loading b) s = s\<lparr>loading := b\<rparr>"
| "assign (Error e) s = s\<lparr>error := e\<rparr>"
| "assign (CurrentPicture p) s = s\<lparr>currentPicture := p\<rparr>"
| "assign (SelectedDate d) s = s\<lparr>selectedDate := d\<rparr>"

section \<open>The subscribers\<close>

text \<open>
  The components write to the page; what reaches the caller of \<^verbatim>\<open>setState\<close> is an
  exception. Two operations of the components can throw on the values of a picture.

  Converting a value to a string or to a primitive (when it is assigned to \<^verbatim>\<open>src\<close>,
  \<^verbatim>\<open>alt\<close> or \<^verbatim>\<open>textContent\<close>, or passed to \<^verbatim>\<open>new Date\<close>) throws for an object with
  an own property \<^verbatim>\<open>toString\<close>, which in a parsed JSON value is never a function, and
  for an array that has such an object among its elements, which \<^verbatim>\<open>join\<close> converts one
  by one.
\<close>

fun toPrimitive_throws :: "jsval \<Rightarrow> bool" where
  "toPrimitive_throws (JArr vs) = list_ex toPrimitive_throws vs"
| "toPrimitive_throws (JObj ps) = (''toString'' \<in> fst ` set ps)"
| "toPrimitive_throws v = False"

definition toString_exception :: "runtime \<Rightarrow> jsval \<Rightarrow> js_error option" where
  "toString_exception rt v = (if toPrimitive_throws v then Some (toPrimitiveTypeError rt v) else None)"

text \<open>
  The call \<^verbatim>\<open>v.includes(needle)\<close> with a string: a substring test on a string, a
  membership test on an array, and a \<^verbatim>\<open>TypeError\<close> on every other value, none of which
  has a method of that name.
\<close>

fun includes_str :: "string \<Rightarrow> string \<Rightarrow> bool" where
  "includes_str [] sub = (sub = [])"
| "includes_str (c # s) sub = (take (length sub) (c # s) = sub \<or> includes_str s sub)"

definition js_includes :: "runtime \<Rightarrow> jsval \<Rightarrow> string \<Rightarrow> js_error + bool" where
  "js_includes rt v needle =
     (case v of
        JStr s \<Rightarrow> Inr (includes_str s needle)
      | JArr vs \<Rightarrow> Inr (JStr needle \<in> set vs)
      | _ \<Rightarrow> Inl (includesTypeError rt v))"

text \<open>Statements in sequence: the first exception ends the sequence.\<close>

definition and_then :: "js_error option \<Rightarrow> js_error option \<Rightarrow> js_error option" where
  "and_then a b = (case a of Some e \<Rightarrow> Some e | None \<Rightarrow> b)"

text \<open>
  \<^verbatim>\<open>MediaComponent\<close>: \<^verbatim>\<open>createVideoElement\<close> assigns \<^verbatim>\<open>data.url\<close> to \<^verbatim>\<open>iframe.src\<close>;
  \<^verbatim>\<open>createImageElement\<close> assigns \<^verbatim>\<open>data.hdurl || data.url\<close> to \<^verbatim>\<open>img.src\<close> and
  \<^verbatim>\<open>data.title || 'Astronomy picture'\<close> to \<^verbatim>\<open>img.alt\<close>; \<^verbatim>\<open>createMediaElement\<close> chooses
  between them, calling \<^verbatim>\<open>data.url.includes\<close> unless \<^verbatim>\<open>media_type\<close> is \<^verbatim>\<open>'video'\<close>.
\<close>

definition createVideoElement :: "runtime \<Rightarrow> jsobj \<Rightarrow> js_error option" where
  "createVideoElement rt data = toString_exception rt (get_prop data ''url'')"

definition createImageElement :: "runtime \<Rightarrow> jsobj \<Rightarrow> js_error option" where
  "createImageElement rt data =
     and_then (toString_exception rt (js_or (get_prop data ''hdurl'') (get_prop data ''url'')))
              (toString_exception rt (js_or (get_prop data ''title'') (JStr ''Astronomy picture'')))"

definition createMediaElement :: "runtime \<Rightarrow> jsobj \<Rightarrow> js_error option" where
  "createMediaElement rt data =
     (if get_prop data ''media_type'' = JStr ''video'' then createVideoElement rt data
      else (case js_includes rt (get_prop data ''url'') ''youtube.com'' of
              Inl e \<Rightarrow> Some e
            | Inr True \<Rightarrow> createVideoElement rt data
            | Inr False \<Rightarrow>
                (case js_includes rt (get_prop data ''url'') ''vimeo.com'' of
                   Inl e \<Rightarrow> Some e
                 | Inr True \<Rightarrow> createVideoElement rt data
                 | Inr False \<Rightarrow> createImageElement rt data)))"

text \<open>
  \<^verbatim>\<open>InfoComponent.displayInfo\<close>: the title (or \<^verbatim>\<open>'Untitled'\<close>), the date through
  \<^verbatim>\<open>new Date\<close>, the explanation (or its default) and, when truthy, the copyright.
\<close>

definition displayInfo :: "runtime \<Rightarrow> jsobj \<Rightarrow> js_error option" where
  "displayInfo rt data =
     and_then (toString_exception rt (js_or (get_prop data ''title'') (JStr ''Untitled'')))
    (and_then (toString_exception rt (get_prop data ''date''))
    (and_then (toString_exception rt
                 (js_or (get_prop data ''explanation'') (JStr ''No description available.'')))
              (if truthy (get_prop data ''copyright'')
               then toString_exception rt (get_prop data ''copyright'') else None)))"

text \<open>
  The subscribers are the five components, called in the order loading, error, media,
  info, controls. The loading, error and controls components do not throw; the media and
  info components act when there is a current picture.
\<close>

definition notifySubscribers :: "runtime \<Rightarrow> app_state \<Rightarrow> js_error option" where
  "notifySubscribers rt s =
     (case currentPicture s of
        None \<Rightarrow> None
      | Some data \<Rightarrow> and_then (createMediaElement rt data) (displayInfo rt data))"

text \<open>
  \<^verbatim>\<open>ErrorComponent.render\<close> leaves one trace on the page that matters later: when the
  error text contains \<^verbatim>\<open>'Rate limit exceeded'\<close> it puts the demo button into the error
  panel, where it stays.
\<close>

definition ErrorComponent_render :: "app_state \<Rightarrow> world \<Rightarrow> world" where
  "ErrorComponent_render s w =
     (case error s of
        None \<Rightarrow> w
      | Some m \<Rightarrow>
          if m \<noteq> [] \<and> includes_str m ''Rate limit exceeded'' then w\<lparr>retryButton := True\<rparr> else w)"

text \<open>\<^verbatim>\<open>setState(newState)\<close>: the new state is stored first, then the subscribers run.\<close>

definition setState ::
    "runtime \<Rightarrow> state_field list \<Rightarrow> app_state \<Rightarrow> world \<Rightarrow> js_error option \<times> app_state \<times> world" where
  "setState rt newState s w =
     (let s' = fold assign newState s in (notifySubscribers rt s', s', ErrorComponent_render s' w))"

section \<open>Loading a picture\<close>

text \<open>
  \<^verbatim>\<open>ControlsComponent.loadPicture(date)\<close> is an \<^verbatim>\<open>async\<close> function: it runs until its
  \<^verbatim>\<open>await\<close> and continues when the awaited promise settles, and other event handlers run
  in between. The call therefore has two parts. The first (\<open>loadPicture_begin\<close>) runs up to
  the request; it ends there with the request URL, or in the \<^verbatim>\<open>catch\<close> block when a
  subscriber throws on the first \<^verbatim>\<open>setState\<close>. The second (\<open>loadPicture_resume\<close>) takes what
  \<open>fetchPictureData\<close> returned or threw. Each part gives the exception that leaves the call,
  if any, with the state and the outside effects.
\<close>

definition loadPicture_catch ::
    "runtime \<Rightarrow> js_error \<Rightarrow> app_state \<Rightarrow> world \<Rightarrow> js_error option \<times> app_state \<times> world" where
  "loadPicture_catch rt e s w = setState rt [Loading False, Error (Some (message e))] s w"

definition loadPicture_begin ::
    "runtime \<Rightarrow> config \<Rightarrow> string \<Rightarrow> app_state \<Rightarrow> world
       \<Rightarrow> (js_error option + string) \<times> app_state \<times> world" where
  "loadPicture_begin rt cfg d s w =
     (case setState rt [Loading True, Error None] s w of
        (Some e, s1, w1) \<Rightarrow> (let (x, s2, w2) = loadPicture_catch rt e s1 w1 in (Inl x, s2, w2))
      | (None, s1, w1) \<Rightarrow>
          (let u = buildApiUrl cfg d in (Inr u, s1, w1\<lparr>requests := requests w1 @ [u]\<rparr>)))"

definition loadPicture_resume ::
    "runtime \<Rightarrow> string \<Rightarrow> js_error + jsobj \<Rightarrow> app_state \<Rightarrow> world
       \<Rightarrow> js_error option \<times> app_state \<times> world" where
  "loadPicture_resume rt d r s w =
     (case r of
        Inl e \<Rightarrow> loadPicture_catch rt e s w
      | Inr data \<Rightarrow>
          (case setState rt [Loading False, CurrentPicture (Some data), SelectedDate d] s w of
             (None, s', w') \<Rightarrow> (None, s', w')
           | (Some e, s', w') \<Rightarrow> loadPicture_catch rt e s' w'))"

section \<open>The page as an event-driven system\<close>

text \<open>
  The page keeps the application state, the value of the date input, the calls of
  \<^verbatim>\<open>loadPicture\<close> whose request is outstanding, oldest first, and the outside effects. An
  outstanding call is known by its date, the URL of its request, and whether it is the
  call made at start-up.
\<close>

record outstanding =
  forDate :: string
  request :: string
  atStartup :: bool

record ui =
  appState :: app_state
  dateInput :: string
  pending :: "outstanding list"
  effects :: world

text \<open>
  A call of \<^verbatim>\<open>loadPicture\<close> that a handler of a button or of the date input awaits: an
  exception that leaves the call is an unhandled rejection and changes nothing. The call
  at start-up is awaited inside the \<^verbatim>\<open>try\<close> of \<^verbatim>\<open>initializeApp\<close>: an exception that
  leaves it is caught there, and \<^verbatim>\<open>handleInitializationError\<close> replaces the body of the
  page, with the buttons and the date input.
\<close>

definition call_end :: "bool \<Rightarrow> js_error option \<Rightarrow> world \<Rightarrow> world" where
  "call_end startup x w =
     (case x of None \<Rightarrow> w | Some e \<Rightarrow> if startup then w\<lparr>bodyReplaced := True\<rparr> else w)"

definition call_loadPicture :: "runtime \<Rightarrow> config \<Rightarrow> string \<Rightarrow> bool \<Rightarrow> ui \<Rightarrow> ui" where
  "call_loadPicture rt cfg d startup u =
     (case loadPicture_begin rt cfg d (appState u) (effects u) of
        (Inl x, s1, w1) \<Rightarrow> u\<lparr>appState := s1, effects := call_end startup x w1\<rparr>
      | (Inr req, s1, w1) \<Rightarrow>
          u\<lparr>appState := s1, effects := w1,
            pending := pending u @ [\<lparr>forDate = d, request = req, atStartup = startup\<rparr>]\<rparr>)"

definition handleFetchClick :: "runtime \<Rightarrow> config \<Rightarrow> ui \<Rightarrow> ui" where
  "handleFetchClick rt cfg u =
     (let selected = dateInput u
      in if selected \<noteq> [] then call_loadPicture rt cfg selected False u else u)"

definition handleTodayClick :: "runtime \<Rightarrow> config \<Rightarrow> string \<Rightarrow> ui \<Rightarrow> ui" where
  "handleTodayClick rt cfg today u =
     call_loadPicture rt cfg today False (u\<lparr>dateInput := today\<rparr>)"

text \<open>
  The demo button (\<^verbatim>\<open>createRetryButton\<close>) stores the sample of
  \<^verbatim>\<open>AstronomyAPIService.createDemoSample\<close>, whose date is today's.
\<close>

definition createDemoSample :: "string \<Rightarrow> jsobj" where
  "createDemoSample today =
     [(''title'', JStr ''The Horsehead Nebula (Demo Sample)''),
      (''date'', JStr today),
      (''explanation'', JStr (''This is a demo sample showing your futuristic astronomy app. '' @
         ''The Horsehead Nebula is a dark nebula in the constellation Orion. '' @
         ''Get your free NASA API key to see real daily astronomy pictures!'')),
      (''url'', JStr (''https://upload.wikimedia.org/wikipedia/commons/thumb/e/e0/'' @
         ''Horsehead_Nebula_0.jpg/512px-Horsehead_Nebula_0.jpg'')),
      (''hdurl'', JStr ''https://upload.wikimedia.org/wikipedia/commons/e/e0/Horsehead_Nebula_0.jpg''),
      (''media_type'', JStr ''image''),
      (''copyright'', JStr ''Demo Image from Wikimedia Commons'')]"

definition handleDemoClick :: "runtime \<Rightarrow> string \<Rightarrow> ui \<Rightarrow> ui" where
  "handleDemoClick rt today u =
     (let (x, s1, w1) =
            setState rt [Error None, CurrentPicture (Some (createDemoSample today))]
              (appState u) (effects u)
      in u\<lparr>appState := s1, effects := w1\<rparr>)"

text \<open>
  Start-up (\<^verbatim>\<open>initializeApp\<close>) on a page that has the elements the program looks up: a
  fresh state, the date input set to today, and the first call of \<^verbatim>\<open>loadPicture\<close>. The
  start-up code reads the clock several times; one date stands for all readings.
\<close>

definition initializeApp :: "runtime \<Rightarrow> config \<Rightarrow> string \<Rightarrow> ui" where
  "initializeApp rt cfg today =
     call_loadPicture rt cfg today True
       \<lparr>appState = AppState_new today, dateInput = today, pending = [],
        effects = \<lparr>requests = [], console = [], retryButton = False, bodyReplaced = False\<rparr>\<rparr>"

text \<open>
  The request of the \<open>i\<close>-th outstanding call settles: \<open>fetchPictureData\<close> finishes with
  what the request settled to, and the call of \<^verbatim>\<open>loadPicture\<close> runs to its end.
\<close>

definition settle :: "runtime \<Rightarrow> config \<Rightarrow> nat \<Rightarrow> fetch_outcome \<Rightarrow> ui \<Rightarrow> ui" where
  "settle rt cfg i outcome u =
     (if i < length (pending u) then
        (let c = pending u ! i;
             (r, w1) = fetchPictureData_resume cfg outcome (effects u);
             (x, s1, w2) = loadPicture_resume rt (forDate c) r (appState u) w1
         in u\<lparr>appState := s1, effects := call_end (atStartup c) x w2,
              pending := take i (pending u) @ drop (Suc i) (pending u)\<rparr>)
      else u)"

text \<open>
  The events: a click on the fetch button, a click on the today button (with the clock's
  date), a key pressed in the date input, an edit of the date input, a click on the demo
  button (with the clock's date), and the settling of an outstanding request. The user
  can act while the body of the page has not been replaced, and can click the demo button
  when it is on the page and the error panel is shown.
\<close>

datatype event =
    FetchClick
  | TodayClick string
  | KeyPress string
  | DateInput string
  | DemoClick string
  | Settle nat fetch_outcome

fun enabled :: "event \<Rightarrow> ui \<Rightarrow> bool" where
  "enabled (Settle i outcome) u = (i < length (pending u))"
| "enabled (DemoClick today) u =
     (\<not> bodyReplaced (effects u) \<and> retryButton (effects u) \<and>
      (case error (appState u) of None \<Rightarrow> False | Some m \<Rightarrow> m \<noteq> []))"
| "enabled ev u = (\<not> bodyReplaced (effects u))"

fun handle :: "runtime \<Rightarrow> config \<Rightarrow> event \<Rightarrow> ui \<Rightarrow> ui" where
  "handle rt cfg FetchClick u = handleFetchClick rt cfg u"
| "handle rt cfg (TodayClick today) u = handleTodayClick rt cfg today u"
| "handle rt cfg (KeyPress k) u = (if k = ''Enter'' then handleFetchClick rt cfg u else u)"
| "handle rt cfg (DateInput v) u = u\<lparr>dateInput := v\<rparr>"
| "handle rt cfg (DemoClick today) u = handleDemoClick rt today u"
| "handle rt cfg (Settle i outcome) u = settle rt cfg i outcome u"

definition step :: "runtime \<Rightarrow> config \<Rightarrow> event \<Rightarrow> ui \<Rightarrow> ui" where
  "step rt cfg ev u = (if enabled ev u then handle rt cfg ev u else u)"

definition run :: "runtime \<Rightarrow> config \<Rightarrow> string \<Rightarrow> event list \<Rightarrow> ui" where
  "run rt cfg today evs = fold (step rt cfg) evs (initializeApp rt cfg today)"

text \<open>
  The date with which an event calls \<^verbatim>\<open>loadPicture\<close>, if it does: the fetch button and
  the Enter key with the value of the date input when that is not empty, the today button
  with today's date.
\<close>

definition load_date :: "event \<Rightarrow> ui \<Rightarrow> string option" where
  "load_date ev u =
     (if enabled ev u then
        (case ev of
           FetchClick \<Rightarrow> if dateInput u \<noteq> [] then Some (dateInput u) else None
         | KeyPress k \<Rightarrow> if k = ''Enter'' \<and> dateInput u \<noteq> [] then Some (dateInput u) else None
         | TodayClick today \<Rightarrow> Some today
         | DateInput v \<Rightarrow> None
         | DemoClick today \<Rightarrow> None
         | Settle i outcome \<Rightarrow> None)
      else None)"

text \<open>
  Two runtimes for evaluating the definitions, with the messages of one engine: one without
  network access, and one whose transport answers every request with the given response.
\<close>

definition engine_includesTypeError :: "jsval \<Rightarrow> js_error" where
  "engine_includesTypeError v =
     (case v of
        JUndefined \<Rightarrow>
          JsError ''TypeError''
            (''Cannot read properties of undefined (reading '' @ [CHR 0x27] @ ''includes'' @
             [CHR 0x27] @ '')'')
      | JNull \<Rightarrow>
          JsError ''TypeError''
            (''Cannot read properties of null (reading '' @ [CHR 0x27] @ ''includes'' @
             [CHR 0x27] @ '')'')
      | _ \<Rightarrow> JsError ''TypeError'' ''data.url.includes is not a function'')"

definition engine_toPrimitiveTypeError :: "jsval \<Rightarrow> js_error" where
  "engine_toPrimitiveTypeError v = JsError ''TypeError'' ''Cannot convert object to primitive value''"

definition offline :: runtime where
  "offline =
     \<lparr>fetch = (\<lambda>earlier u. Rejected (JsError ''TypeError'' ''Failed to fetch'')),
      includesTypeError = engine_includesTypeError,
      toPrimitiveTypeError = engine_toPrimitiveTypeError\<rparr>"

definition answering :: "response \<Rightarrow> runtime" where
  "answering r =
     \<lparr>fetch = (\<lambda>earlier u. Fulfilled r),
      includesTypeError = engine_includesTypeError,
      toPrimitiveTypeError = engine_toPrimitiveTypeError\<rparr>"

section \<open>Sample data\<close>

text \<open>A response in the shape of the \<^verbatim>\<open>custom\<close> profile, and one in the upstream shape.\<close>

definition custom_sample :: jsobj where
  "custom_sample =
     [(''picture_title'', JStr ''Orion''), (''picture_date'', JStr ''2024-06-01''),
      (''description'', JStr ''A nebula''), (''image_url'', JStr ''https://example.org/a.jpg''),
      (''high_res_url'', JStr ''https://example.org/a_hd.jpg''), (''type'', JStr ''video''),
      (''credit'', JStr ''ESO'')]"

definition plain_sample :: jsobj where
  "plain_sample = [(''title'', JStr ''Orion''), (''media_type'', JStr ''video'')]"

lemmas eval_defs =
  custom_config_def custom_mapping_def defaultConfig_def nasa_mapping_def has_property_def
  Object_prototype_def property_key_def get_prop_def js_or_def transformResponse_def

text \<open>
  The outside before any request, responses of a given status with an empty object as
  body, and a successful response with a picture.
\<close>

definition empty_world :: world where
  "empty_world = \<lparr>requests = [], console = [], retryButton = False, bodyReplaced = False\<rparr>"

definition status_response :: "nat \<Rightarrow> string \<Rightarrow> response" where
  "status_response n t = \<lparr>status = n, statusText = t, json = Inr []\<rparr>"

definition ok_empty :: response where
  "ok_empty = status_response 200 ''OK''"

definition picture_sample :: jsobj where
  "picture_sample =
     [(''title'', JStr ''Orion''), (''url'', JStr ''https://example.org/a.jpg''),
      (''media_type'', JStr ''image'')]"

definition ok_picture :: response where
  "ok_picture = \<lparr>status = 200, statusText = ''OK'', json = Inr picture_sample\<rparr>"

section \<open>Properties of the normalization\<close>

lemma get_prop_absent: "\<not> has_property obj k \<Longrightarrow> get_prop obj k = JUndefined"
  by (auto simp: has_property_def get_prop_def rev_image_eqI dest!: map_of_SomeD
      split: option.splits)

lemma js_or_truthy: "truthy a \<Longrightarrow> js_or a b = a"
  by (simp add: js_or_def)

lemma js_or_falsy: "\<not> truthy a \<Longrightarrow> js_or a b = b"
  by (simp add: js_or_def)

text \<open>Reading the seven properties of the object that \<open>transformResponse\<close> builds.\<close>

lemma record_fields:
  assumes "responseMapping cfg = Some m"
  shows "get_prop (transformResponse cfg raw) ''title'' =
           js_or (get_prop raw (property_key (title m))) (get_prop raw ''title'')"
    and "get_prop (transformResponse cfg raw) ''date'' =
           js_or (get_prop raw (property_key (date m))) (get_prop raw ''date'')"
    and "get_prop (transformResponse cfg raw) ''explanation'' =
           js_or (get_prop raw (property_key (explanation m))) (get_prop raw ''explanation'')"
    and "get_prop (transformResponse cfg raw) ''url'' =
           js_or (get_prop raw (property_key (url m))) (get_prop raw ''url'')"
    and "get_prop (transformResponse cfg raw) ''hdurl'' =
           js_or (get_prop raw (property_key (hdurl m))) (get_prop raw ''hdurl'')"
    and "get_prop (transformResponse cfg raw) ''media_type'' =
           js_or (js_or (get_prop raw (property_key (mediaType m))) (get_prop raw ''media_type''))
                 (JStr ''image'')"
    and "get_prop (transformResponse cfg raw) ''copyright'' =
           js_or (get_prop raw (property_key (copyright m))) (get_prop raw ''copyright'')"
  using assms by (simp_all add: transformResponse_def get_prop_def)

text \<open>
  Claim C8. Without a response mapping in the configuration, \<open>transformResponse\<close> returns
  the raw response unchanged: nothing is normalized, no fallback is applied and no
  \<^verbatim>\<open>media_type\<close> is filled in.
\<close>

theorem transformResponse_without_mapping:
  "responseMapping cfg = None \<Longrightarrow> transformResponse cfg raw = raw"
  by (simp add: transformResponse_def)

theorem transformResponse_without_mapping_witness:
  "responseMapping (defaultConfig\<lparr>responseMapping := None\<rparr>) = None \<and>
   transformResponse (defaultConfig\<lparr>responseMapping := None\<rparr>) [(''picture_title'', JStr ''M31'')]
     = [(''picture_title'', JStr ''M31'')]"
  using transformResponse_without_mapping
          [of "defaultConfig\<lparr>responseMapping := None\<rparr>" "[(''picture_title'', JStr ''M31'')]"]
  by simp

text \<open>
  Claim C9. With a response mapping, when the mapped \<^verbatim>\<open>mediaType\<close> key and the key
  \<^verbatim>\<open>media_type\<close> are both absent from the raw response or hold falsy values, the
  normalized \<^verbatim>\<open>media_type\<close> is the string \<^verbatim>\<open>'image'\<close>; and the normalized
  \<^verbatim>\<open>media_type\<close> is never \<^verbatim>\<open>undefined\<close>.
\<close>

theorem media_type_default:
  assumes "responseMapping cfg = Some m"
  shows "((\<not> has_property raw (property_key (mediaType m)) \<or>
            \<not> truthy (get_prop raw (property_key (mediaType m)))) \<and>
          (\<not> has_property raw ''media_type'' \<or> \<not> truthy (get_prop raw ''media_type''))
          \<longrightarrow> get_prop (transformResponse cfg raw) ''media_type'' = JStr ''image'') \<and>
         get_prop (transformResponse cfg raw) ''media_type'' \<noteq> JUndefined"
proof -
  let ?a = "get_prop raw (property_key (mediaType m))"
  let ?b = "get_prop raw ''media_type''"
  have eq: "get_prop (transformResponse cfg raw) ''media_type'' = js_or (js_or ?a ?b) (JStr ''image'')"
    using assms by (rule record_fields)
  have "truthy (js_or (js_or ?a ?b) (JStr ''image''))"
    by (simp add: js_or_def)
  then have "js_or (js_or ?a ?b) (JStr ''image'') \<noteq> JUndefined"
    by auto
  moreover have "js_or (js_or ?a ?b) (JStr ''image'') = JStr ''image''"
    if "\<not> truthy ?a" "\<not> truthy ?b"
    using that by (simp add: js_or_def)
  moreover have "\<not> truthy (get_prop raw k)" if "\<not> has_property raw k" for k
    using that by (simp add: get_prop_absent)
  ultimately show ?thesis
    unfolding eq by blast
qed

theorem media_type_default_witness:
  "responseMapping custom_config = Some custom_mapping \<and>
   \<not> has_property [(''type'', JStr '''')] ''media_type'' \<and>
   \<not> truthy (get_prop [(''type'', JStr '''')] (property_key (mediaType custom_mapping))) \<and>
   get_prop (transformResponse custom_config [(''type'', JStr '''')]) ''media_type'' = JStr ''image''"
  using media_type_default [of custom_config custom_mapping "[(''type'', JStr '''')]"]
  by (simp add: custom_config_def custom_mapping_def has_property_def Object_prototype_def
        property_key_def get_prop_def)

text \<open>
  Claim C3, as stated: whenever the raw response contains the mapped field name, the
  normalized field equals the value stored under it. It fails for a falsy value: with the
  \<^verbatim>\<open>custom\<close> profile and the response
  \<^verbatim>\<open>{"picture_title": "", "title": "Orion"}\<close> the normalized title is \<^verbatim>\<open>"Orion"\<close>, not
  the empty string stored under \<^verbatim>\<open>picture_title\<close>.
\<close>

theorem mapped_value_counterexample:
  "has_property [(''picture_title'', JStr ''''), (''title'', JStr ''Orion'')] ''picture_title'' \<and>
   title custom_mapping = Some ''picture_title'' \<and>
   get_prop (transformResponse custom_config
       [(''picture_title'', JStr ''''), (''title'', JStr ''Orion'')]) ''title''
     \<noteq> get_prop [(''picture_title'', JStr ''''), (''title'', JStr ''Orion'')] ''picture_title''"
  by (simp add: eval_defs)

text \<open>
  Claim C3, amended: for each of the seven logical fields, when the raw response holds a
  truthy value under the mapped field name, the normalized field equals that value.
\<close>

theorem mapped_truthy_value:
  assumes "responseMapping cfg = Some m"
  shows "(truthy (get_prop raw (property_key (title m))) \<longrightarrow>
            get_prop (transformResponse cfg raw) ''title'' = get_prop raw (property_key (title m))) \<and>
         (truthy (get_prop raw (property_key (date m))) \<longrightarrow>
            get_prop (transformResponse cfg raw) ''date'' = get_prop raw (property_key (date m))) \<and>
         (truthy (get_prop raw (property_key (explanation m))) \<longrightarrow>
            get_prop (transformResponse cfg raw) ''explanation'' =
              get_prop raw (property_key (explanation m))) \<and>
         (truthy (get_prop raw (property_key (url m))) \<longrightarrow>
            get_prop (transformResponse cfg raw) ''url'' = get_prop raw (property_key (url m))) \<and>
         (truthy (get_prop raw (property_key (hdurl m))) \<longrightarrow>
            get_prop (transformResponse cfg raw) ''hdurl'' = get_prop raw (property_key (hdurl m))) \<and>
         (truthy (get_prop raw (property_key (mediaType m))) \<longrightarrow>
            get_prop (transformResponse cfg raw) ''media_type'' =
              get_prop raw (property_key (mediaType m))) \<and>
         (truthy (get_prop raw (property_key (copyright m))) \<longrightarrow>
            get_prop (transformResponse cfg raw) ''copyright'' =
              get_prop raw (property_key (copyright m)))"
  by (simp add: record_fields [OF assms] js_or_truthy)

theorem mapped_truthy_value_witness:
  "responseMapping custom_config = Some custom_mapping \<and>
   truthy (get_prop custom_sample (property_key (title custom_mapping))) \<and>
   truthy (get_prop custom_sample (property_key (date custom_mapping))) \<and>
   truthy (get_prop custom_sample (property_key (explanation custom_mapping))) \<and>
   truthy (get_prop custom_sample (property_key (url custom_mapping))) \<and>
   truthy (get_prop custom_sample (property_key (hdurl custom_mapping))) \<and>
   truthy (get_prop custom_sample (property_key (mediaType custom_mapping))) \<and>
   truthy (get_prop custom_sample (property_key (copyright custom_mapping))) \<and>
   get_prop (transformResponse custom_config custom_sample) ''title'' = JStr ''Orion'' \<and>
   get_prop (transformResponse custom_config custom_sample) ''date'' = JStr ''2024-06-01'' \<and>
   get_prop (transformResponse custom_config custom_sample) ''explanation'' = JStr ''A nebula'' \<and>
   get_prop (transformResponse custom_config custom_sample) ''url'' =
     JStr ''https://example.org/a.jpg'' \<and>
   get_prop (transformResponse custom_config custom_sample) ''hdurl'' =
     JStr ''https://example.org/a_hd.jpg'' \<and>
   get_prop (transformResponse custom_config custom_sample) ''media_type'' = JStr ''video'' \<and>
   get_prop (transformResponse custom_config custom_sample) ''copyright'' = JStr ''ESO''"
proof -
  have m: "responseMapping custom_config = Some custom_mapping"
    by (simp add: custom_config_def)
  have vals:
    "get_prop custom_sample (property_key (title custom_mapping)) = JStr ''Orion''"
    "get_prop custom_sample (property_key (date custom_mapping)) = JStr ''2024-06-01''"
    "get_prop custom_sample (property_key (explanation custom_mapping)) = JStr ''A nebula''"
    "get_prop custom_sample (property_key (url custom_mapping)) = JStr ''https://example.org/a.jpg''"
    "get_prop custom_sample (property_key (hdurl custom_mapping)) =
       JStr ''https://example.org/a_hd.jpg''"
    "get_prop custom_sample (property_key (mediaType custom_mapping)) = JStr ''video''"
    "get_prop custom_sample (property_key (copyright custom_mapping)) = JStr ''ESO''"
    by (simp_all add: custom_sample_def custom_mapping_def property_key_def get_prop_def)
  show ?thesis
    using mapped_truthy_value [OF m, of custom_sample] m by (simp add: vals)
qed

text \<open>
  Claim C2, as stated: for all seven fields, a field whose mapped key and same-named key
  are both absent is \<^verbatim>\<open>undefined\<close> in the normalized record. It fails for the media
  type: with the \<^verbatim>\<open>custom\<close> profile (mapped key \<^verbatim>\<open>type\<close>) and the empty response
  \<^verbatim>\<open>{}\<close>, the normalized \<^verbatim>\<open>media_type\<close> is \<^verbatim>\<open>'image'\<close>.
\<close>

theorem fallback_counterexample:
  "mediaType custom_mapping = Some ''type'' \<and>
   \<not> has_property [] ''type'' \<and> \<not> has_property [] ''media_type'' \<and>
   \<not> has_property [] ''mediaType'' \<and>
   get_prop (transformResponse custom_config []) ''media_type'' = JStr ''image'' \<and>
   get_prop (transformResponse custom_config []) ''media_type'' \<noteq> JUndefined"
  by (simp add: eval_defs)

text \<open>
  Claim C2, amended: for the six fields \<^verbatim>\<open>title\<close>, \<^verbatim>\<open>date\<close>, \<^verbatim>\<open>explanation\<close>,
  \<^verbatim>\<open>url\<close>, \<^verbatim>\<open>hdurl\<close> and \<^verbatim>\<open>copyright\<close>, when the raw response does not have the
  mapped key the normalized field is the value at the same-named key, and it is
  \<^verbatim>\<open>undefined\<close> when the response has neither key. For the media type the fallback key is
  \<^verbatim>\<open>media_type\<close>: without the mapped key the normalized \<^verbatim>\<open>media_type\<close> is the value at
  \<^verbatim>\<open>media_type\<close> when that is truthy and \<^verbatim>\<open>'image'\<close> otherwise.
\<close>

theorem fallback_to_same_name:
  assumes "responseMapping cfg = Some m"
  shows "(\<not> has_property raw (property_key (title m)) \<longrightarrow>
            get_prop (transformResponse cfg raw) ''title'' = get_prop raw ''title'') \<and>
         (\<not> has_property raw (property_key (date m)) \<longrightarrow>
            get_prop (transformResponse cfg raw) ''date'' = get_prop raw ''date'') \<and>
         (\<not> has_property raw (property_key (explanation m)) \<longrightarrow>
            get_prop (transformResponse cfg raw) ''explanation'' = get_prop raw ''explanation'') \<and>
         (\<not> has_property raw (property_key (url m)) \<longrightarrow>
            get_prop (transformResponse cfg raw) ''url'' = get_prop raw ''url'') \<and>
         (\<not> has_property raw (property_key (hdurl m)) \<longrightarrow>
            get_prop (transformResponse cfg raw) ''hdurl'' = get_prop raw ''hdurl'') \<and>
         (\<not> has_property raw (property_key (copyright m)) \<longrightarrow>
            get_prop (transformResponse cfg raw) ''copyright'' = get_prop raw ''copyright'') \<and>
         (\<not> has_property raw (property_key (title m)) \<and> \<not> has_property raw ''title'' \<longrightarrow>
            get_prop (transformResponse cfg raw) ''title'' = JUndefined) \<and>
         (\<not> has_property raw (property_key (date m)) \<and> \<not> has_property raw ''date'' \<longrightarrow>
            get_prop (transformResponse cfg raw) ''date'' = JUndefined) \<and>
         (\<not> has_property raw (property_key (explanation m)) \<and>
            \<not> has_property raw ''explanation'' \<longrightarrow>
            get_prop (transformResponse cfg raw) ''explanation'' = JUndefined) \<and>
         (\<not> has_property raw (property_key (url m)) \<and> \<not> has_property raw ''url'' \<longrightarrow>
            get_prop (transformResponse cfg raw) ''url'' = JUndefined) \<and>
         (\<not> has_property raw (property_key (hdurl m)) \<and> \<not> has_property raw ''hdurl'' \<longrightarrow>
            get_prop (transformResponse cfg raw) ''hdurl'' = JUndefined) \<and>
         (\<not> has_property raw (property_key (copyright m)) \<and>
            \<not> has_property raw ''copyright'' \<longrightarrow>
            get_prop (transformResponse cfg raw) ''copyright'' = JUndefined) \<and>
         (\<not> has_property raw (property_key (mediaType m)) \<longrightarrow>
            get_prop (transformResponse cfg raw) ''media_type'' =
              (if truthy (get_prop raw ''media_type'') then get_prop raw ''media_type''
               else JStr ''image''))"
  by (simp add: record_fields [OF assms] get_prop_absent js_or_def)

theorem fallback_to_same_name_witness:
  "responseMapping custom_config = Some custom_mapping \<and>
   \<not> has_property plain_sample (property_key (title custom_mapping)) \<and>
   \<not> has_property plain_sample (property_key (date custom_mapping)) \<and>
   \<not> has_property plain_sample (property_key (explanation custom_mapping)) \<and>
   \<not> has_property plain_sample (property_key (url custom_mapping)) \<and>
   \<not> has_property plain_sample (property_key (hdurl custom_mapping)) \<and>
   \<not> has_property plain_sample (property_key (copyright custom_mapping)) \<and>
   \<not> has_property plain_sample (property_key (mediaType custom_mapping)) \<and>
   \<not> has_property plain_sample ''date'' \<and> \<not> has_property plain_sample ''explanation'' \<and>
   \<not> has_property plain_sample ''url'' \<and> \<not> has_property plain_sample ''hdurl'' \<and>
   \<not> has_property plain_sample ''copyright'' \<and>
   get_prop (transformResponse custom_config plain_sample) ''title'' = JStr ''Orion'' \<and>
   get_prop (transformResponse custom_config plain_sample) ''date'' = JUndefined \<and>
   get_prop (transformResponse custom_config plain_sample) ''explanation'' = JUndefined \<and>
   get_prop (transformResponse custom_config plain_sample) ''url'' = JUndefined \<and>
   get_prop (transformResponse custom_config plain_sample) ''hdurl'' = JUndefined \<and>
   get_prop (transformResponse custom_config plain_sample) ''copyright'' = JUndefined \<and>
   get_prop (transformResponse custom_config plain_sample) ''media_type'' = JStr ''video''"
proof -
  have m: "responseMapping custom_config = Some custom_mapping"
    by (simp add: custom_config_def)
  have absent:
    "\<not> has_property plain_sample (property_key (title custom_mapping))"
    "\<not> has_property plain_sample (property_key (date custom_mapping))"
    "\<not> has_property plain_sample (property_key (explanation custom_mapping))"
    "\<not> has_property plain_sample (property_key (url custom_mapping))"
    "\<not> has_property plain_sample (property_key (hdurl custom_mapping))"
    "\<not> has_property plain_sample (property_key (copyright custom_mapping))"
    "\<not> has_property plain_sample (property_key (mediaType custom_mapping))"
    "\<not> has_property plain_sample ''date''" "\<not> has_property plain_sample ''explanation''"
    "\<not> has_property plain_sample ''url''" "\<not> has_property plain_sample ''hdurl''"
    "\<not> has_property plain_sample ''copyright''"
    by (simp_all add: plain_sample_def custom_mapping_def property_key_def has_property_def
          Object_prototype_def)
  have present:
    "get_prop plain_sample ''title'' = JStr ''Orion''"
    "get_prop plain_sample ''media_type'' = JStr ''video''"
    by (simp_all add: plain_sample_def get_prop_def)
  show ?thesis
    using fallback_to_same_name [OF m, of plain_sample] m absent
    by (simp add: present get_prop_absent)
qed

section \<open>Properties of the fetch adapter\<close>

lemma fetch_answering [simp]: "fetch (answering r) earlier u = Fulfilled r"
  by (simp add: answering_def)

lemma fetchPictureData_result:
  "fst (fetchPictureData rt cfg d w) =
     (case fetch rt (requests w) (buildApiUrl cfg d) of
        Rejected e \<Rightarrow> Inl e
      | Fulfilled r \<Rightarrow>
          if \<not> ok r then Inl (handleApiError r)
          else (case json r of Inl e \<Rightarrow> Inl e | Inr raw \<Rightarrow> Inr (transformResponse cfg raw)))"
  by (simp add: fetchPictureData_def fetchPictureData_resume_def rethrow_def Let_def
      split: fetch_outcome.splits sum.splits)

lemma validateApiResponse_default:
  "validateApiResponse resp requiredFields_default =
     (if truthy (get_prop resp ''title'') then
        if truthy (get_prop resp ''url'') then Inr True
        else Inl (JsError ''Error'' ''Invalid API response: missing fields url'')
      else if truthy (get_prop resp ''url'')
        then Inl (JsError ''Error'' ''Invalid API response: missing fields title'')
        else Inl (JsError ''Error'' ''Invalid API response: missing fields title, url''))"
  by (simp add: validateApiResponse_def requiredFields_default_def Let_def)

text \<open>
  Claim C1. A raw response that lacks \<^verbatim>\<open>title\<close> or \<^verbatim>\<open>url\<close> is to be rejected by the
  fetch and normalization pipeline instead of becoming a picture record. The code does not
  do so: for a successful response with the body \<^verbatim>\<open>{}\<close>, \<open>fetchPictureData\<close> returns a
  record whose \<^verbatim>\<open>title\<close> and \<^verbatim>\<open>url\<close> are \<^verbatim>\<open>undefined\<close>, the very record on which the
  program's own check \<open>validateApiResponse\<close> throws; the pipeline never calls that check.
\<close>

theorem missing_fields_accepted:
  "\<not> has_property [] ''title'' \<and> \<not> has_property [] ''url'' \<and>
   fst (fetchPictureData (answering ok_empty) defaultConfig ''2024-06-01'' empty_world) =
     Inr [(''title'', JUndefined), (''date'', JUndefined), (''explanation'', JUndefined),
          (''url'', JUndefined), (''hdurl'', JUndefined), (''media_type'', JStr ''image''),
          (''copyright'', JUndefined)] \<and>
   validateApiResponse
       [(''title'', JUndefined), (''date'', JUndefined), (''explanation'', JUndefined),
        (''url'', JUndefined), (''hdurl'', JUndefined), (''media_type'', JStr ''image''),
        (''copyright'', JUndefined)] requiredFields_default =
     Inl (JsError ''Error'' ''Invalid API response: missing fields title, url'')"
  by (simp add: fetchPictureData_result ok_empty_def status_response_def ok_def eval_defs
      validateApiResponse_default)

text \<open>\<open>show_nat\<close> writes the decimal numeral: reading its digits gives the number back.\<close>

lemma digit_char_value:
  assumes "k < 10"
  shows "(of_char (''0123456789'' ! k) :: int) = 48 + int k"
proof -
  from assms have "k \<in> {0, 1, 2, 3, 4, 5, 6, 7, 8, 9}" by auto
  then show ?thesis by auto
qed

lemma digits_value_snoc:
  "digits_value (s @ [c]) = 10 * digits_value s + ((of_char c :: int) - 48)"
  by (simp add: digits_value_def)

lemma show_nat_decimal: "digits_value (show_nat n) = int n"
proof (induction n rule: show_nat.induct)
  case (1 n)
  show ?case
  proof (cases "n < 10")
    case True
    then show ?thesis
      using digit_char_value [of n]
      by (subst show_nat.simps) (simp add: digits_value_def)
  next
    case False
    have m: "n mod 10 < 10" by simp
    have "digits_value (show_nat n) =
            10 * digits_value (show_nat (n div 10)) + int (n mod 10)"
      using False digit_char_value [OF m]
      by (subst show_nat.simps) (simp add: digits_value_snoc)
    also have "\<dots> = 10 * int (n div 10) + int (n mod 10)"
      using "1.IH" False by simp
    also have "\<dots> = int n"
      by (simp add: zdiv_int zmod_int)
    finally show ?thesis .
  qed
qed

text \<open>
  Claim C4. For every response with a non-success status, the adapter throws an error
  whose message is the rate-limit text for 429, the forbidden text for 403, the
  picture-not-found text for 404, the server-error text for 500, and for every other
  status the generic text, which contains the status code in decimal and the status text.
\<close>

theorem non_success_status_message:
  assumes "fetch rt (requests w) (buildApiUrl cfg d) = Fulfilled r" and "\<not> ok r"
  shows "fst (fetchPictureData rt cfg d w) =
           Inl (JsError ''Error''
             (if status r = 429
                then ''Rate limit exceeded. Get your free NASA API key at: https://api.nasa.gov/''
              else if status r = 403
                then ''API access forbidden. Please check your API key in config.js''
              else if status r = 404 then ''Picture not found for the selected date''
              else if status r = 500 then ''API server error. Please try again later''
              else ''API request failed: '' @ show_nat (status r) @ '' '' @ statusText r))"
  using assms by (simp add: fetchPictureData_result handleApiError_def errorMessages_def)

theorem non_success_status_message_witness:
  "fetch (answering (status_response 429 ''Too Many Requests'')) (requests empty_world)
       (buildApiUrl defaultConfig ''2024-06-01'')
     = Fulfilled (status_response 429 ''Too Many Requests'') \<and>
   \<not> ok (status_response 429 ''Too Many Requests'') \<and>
   fst (fetchPictureData (answering (status_response 429 ''Too Many Requests'')) defaultConfig
          ''2024-06-01'' empty_world) =
     Inl (JsError ''Error''
            ''Rate limit exceeded. Get your free NASA API key at: https://api.nasa.gov/'') \<and>
   fetch (answering (status_response 503 ''Service Unavailable'')) (requests empty_world)
       (buildApiUrl defaultConfig ''2024-06-01'')
     = Fulfilled (status_response 503 ''Service Unavailable'') \<and>
   \<not> ok (status_response 503 ''Service Unavailable'') \<and>
   fst (fetchPictureData (answering (status_response 503 ''Service Unavailable'')) defaultConfig
          ''2024-06-01'' empty_world) =
     Inl (JsError ''Error'' ''API request failed: 503 Service Unavailable'')"
proof -
  have a: "fetch (answering (status_response 429 ''Too Many Requests'')) (requests empty_world)
       (buildApiUrl defaultConfig ''2024-06-01'')
     = Fulfilled (status_response 429 ''Too Many Requests'')" by simp
  have b: "\<not> ok (status_response 429 ''Too Many Requests'')"
    by (simp add: ok_def status_response_def)
  have c: "fetch (answering (status_response 503 ''Service Unavailable'')) (requests empty_world)
       (buildApiUrl defaultConfig ''2024-06-01'')
     = Fulfilled (status_response 503 ''Service Unavailable'')" by simp
  have d: "\<not> ok (status_response 503 ''Service Unavailable'')"
    by (simp add: ok_def status_response_def)
  have s: "show_nat 503 = ''503''"
    by (simp add: show_nat.simps)
  show ?thesis
    using non_success_status_message [OF a b] non_success_status_message [OF c d] a b c d
    by (simp add: status_response_def s)
qed

text \<open>
  Claim C6. Every call of \<open>fetchPictureData\<close> issues exactly one GET request, for the
  URL built from the date, whatever the transport answers: a success, a non-success
  status, a body that is not JSON, or a transport error. Nothing is retried and nothing
  is answered from a cache.
\<close>

theorem fetchPictureData_one_request:
  "requests (snd (fetchPictureData rt cfg d w)) = requests w @ [buildApiUrl cfg d] \<and>
   length (requests (snd (fetchPictureData rt cfg d w))) = length (requests w) + 1"
  by (simp add: fetchPictureData_def fetchPictureData_resume_def rethrow_def Let_def
      split: fetch_outcome.splits sum.splits)

section \<open>Properties of the request URL\<close>

lemma own_entries_two:
  "own_entries [(k1, v1), (k2, v2)] =
     (if is_array_index k2 \<and> (if is_array_index k1 then digits_value k2 < digits_value k1 else True)
      then [(k2, v2), (k1, v1)] else [(k1, v1), (k2, v2)])"
  by (auto simp: own_entries_def)

lemma serialize_two:
  "urlencoded_serialize [(k1, v1), (k2, v2)] =
     urlencode k1 @ ''='' @ urlencode v1 @ ''&'' @ urlencode k2 @ ''='' @ urlencode v2"
  by (simp add: urlencoded_serialize_def)

text \<open>An encoded name or value contains neither separator, so the query splits back into its pairs.\<close>

lemma hex_digit_cases: "hex_digit n \<in> set ''0123456789ABCDEF''"
proof -
  have "n mod 16 < length ''0123456789ABCDEF''" by simp
  then show ?thesis unfolding hex_digit_def by (rule nth_mem)
qed

lemma urlencode_byte_no_separator:
  "CHR ''&'' \<notin> set (urlencode_byte c) \<and> CHR ''='' \<notin> set (urlencode_byte c)"
proof -
  have h: "x \<noteq> CHR ''&'' \<and> x \<noteq> CHR ''=''" if "x \<in> set ''0123456789ABCDEF''" for x
    using that by auto
  have a: "hex_digit n \<noteq> CHR ''&''" "hex_digit n \<noteq> CHR ''=''" for n
    using h [OF hex_digit_cases [of n]] by simp_all
  show ?thesis
    by (auto simp: urlencode_byte_def is_alpha_def is_digit_def a a [symmetric])
qed

lemma urlencode_no_separator:
  "CHR ''&'' \<notin> set (urlencode s) \<and> CHR ''='' \<notin> set (urlencode s)"
  using urlencode_byte_no_separator by (auto simp: urlencode_def)

text \<open>
  Claim C5, as stated: for every configuration the URL binds the date to the parameter
  named \<^verbatim>\<open>dateParam\<close> and the key to the parameter named \<^verbatim>\<open>apiKeyParam\<close>. It fails when
  the two names are the same: the object literal then has one property, whose value is the
  key, and the date is not sent.
\<close>

theorem same_param_name_counterexample:
  "url_params (defaultConfig\<lparr>dateParam := ''api_key''\<rparr>) ''2024-06-01'' =
     [(''api_key'', ''DEMO_KEY'')] \<and>
   buildApiUrl (defaultConfig\<lparr>dateParam := ''api_key''\<rparr>) ''2024-06-01'' =
     ''https://api.nasa.gov/planetary/apod?api_key=DEMO_KEY''"
  by code_simp

text \<open>
  Claim C5, amended: for every date and every configuration whose \<^verbatim>\<open>dateParam\<close> and
  \<^verbatim>\<open>apiKeyParam\<close> are different names, the URL is the base URL, \<^verbatim>\<open>?\<close>, and the two
  URL-encoded pairs \<^verbatim>\<open>dateParam=date\<close> and \<^verbatim>\<open>apiKeyParam=apiKey\<close> joined by \<^verbatim>\<open>&\<close>, and
  nothing else. The date comes first, unless \<^verbatim>\<open>apiKeyParam\<close> is an array-index key that
  the object enumerates before \<^verbatim>\<open>dateParam\<close>.
\<close>

theorem buildApiUrl_two_params:
  assumes "dateParam cfg \<noteq> apiKeyParam cfg"
  shows "buildApiUrl cfg d =
           baseUrl cfg @ ''?'' @
           (if is_array_index (apiKeyParam cfg) \<and>
               (if is_array_index (dateParam cfg)
                then digits_value (apiKeyParam cfg) < digits_value (dateParam cfg) else True)
            then urlencode (apiKeyParam cfg) @ ''='' @ urlencode (apiKey cfg) @ ''&'' @
                 urlencode (dateParam cfg) @ ''='' @ urlencode d
            else urlencode (dateParam cfg) @ ''='' @ urlencode d @ ''&'' @
                 urlencode (apiKeyParam cfg) @ ''='' @ urlencode (apiKey cfg))"
  using assms
  by (simp add: buildApiUrl_def url_params_def own_entries_two serialize_two)

theorem buildApiUrl_two_params_witness:
  "dateParam defaultConfig \<noteq> apiKeyParam defaultConfig \<and>
   buildApiUrl defaultConfig ''2024-06-01'' =
     ''https://api.nasa.gov/planetary/apod?date=2024-06-01&api_key=DEMO_KEY''"
proof -
  have ne: "dateParam defaultConfig \<noteq> apiKeyParam defaultConfig"
    by (simp add: defaultConfig_def)
  have "buildApiUrl defaultConfig ''2024-06-01'' =
           baseUrl defaultConfig @ ''?'' @
           (if is_array_index (apiKeyParam defaultConfig) \<and>
               (if is_array_index (dateParam defaultConfig)
                then digits_value (apiKeyParam defaultConfig) < digits_value (dateParam defaultConfig)
                else True)
            then urlencode (apiKeyParam defaultConfig) @ ''='' @ urlencode (apiKey defaultConfig) @
                 ''&'' @ urlencode (dateParam defaultConfig) @ ''='' @ urlencode ''2024-06-01''
            else urlencode (dateParam defaultConfig) @ ''='' @ urlencode ''2024-06-01'' @ ''&'' @
                 urlencode (apiKeyParam defaultConfig) @ ''='' @ urlencode (apiKey defaultConfig))"
    by (rule buildApiUrl_two_params [OF ne])
  also have "\<dots> = ''https://api.nasa.gov/planetary/apod?date=2024-06-01&api_key=DEMO_KEY''"
    by code_simp
  finally show ?thesis
    using ne by simp
qed

section \<open>Properties of the application state\<close>

lemma setState_state: "fst (snd (setState rt fs s w)) = fold assign fs s"
  by (simp add: setState_def Let_def)

lemma setState_exception: "fst (setState rt fs s w) = notifySubscribers rt (fold assign fs s)"
  by (simp add: setState_def Let_def)

lemma ErrorComponent_render_requests:
  "requests (ErrorComponent_render s w) = requests w \<and>
   console (ErrorComponent_render s w) = console w"
  by (simp add: ErrorComponent_render_def split: option.splits)

lemma setState_requests: "requests (snd (snd (setState rt fs s w))) = requests w"
  by (simp add: setState_def Let_def ErrorComponent_render_requests)

lemma call_end_requests: "requests (call_end b x w) = requests w"
  by (simp add: call_end_def split: option.splits)

lemma loadPicture_catch_state:
  "fst (snd (loadPicture_catch rt e s w)) = s\<lparr>loading := False, error := Some (message e)\<rparr>"
  by (simp add: loadPicture_catch_def setState_state)

lemma loadPicture_catch_requests:
  "requests (snd (snd (loadPicture_catch rt e s w))) = requests w"
  by (simp add: loadPicture_catch_def setState_requests)

text \<open>
  \<open>fetchPictureData\<close> is the request followed by \<open>fetchPictureData_resume\<close> on what the
  transport answers, and what it returns or throws does not depend on the outside.
\<close>

lemma fetchPictureData_two_parts:
  "fetchPictureData rt cfg d w =
     fetchPictureData_resume cfg (fetch rt (requests w) (buildApiUrl cfg d))
       (w\<lparr>requests := requests w @ [buildApiUrl cfg d]\<rparr>)"
  by (simp add: fetchPictureData_def Let_def)

lemma fetchPictureData_resume_result:
  "fst (fetchPictureData_resume cfg outcome w) =
     (case outcome of
        Rejected e \<Rightarrow> Inl e
      | Fulfilled r \<Rightarrow>
          if \<not> ok r then Inl (handleApiError r)
          else (case json r of Inl e \<Rightarrow> Inl e | Inr raw \<Rightarrow> Inr (transformResponse cfg raw)))"
  by (simp add: fetchPictureData_resume_def rethrow_def split: fetch_outcome.splits sum.splits)

lemma loadPicture_begin_cases:
  "loadPicture_begin rt cfg d s w =
     (case fst (setState rt [Loading True, Error None] s w) of
        Some e \<Rightarrow>
          (let r = loadPicture_catch rt e (s\<lparr>loading := True, error := None\<rparr>)
                     (ErrorComponent_render (s\<lparr>loading := True, error := None\<rparr>) w)
           in (Inl (fst r), fst (snd r), snd (snd r)))
      | None \<Rightarrow>
          (Inr (buildApiUrl cfg d), s\<lparr>loading := True, error := None\<rparr>,
           (ErrorComponent_render (s\<lparr>loading := True, error := None\<rparr>) w)
             \<lparr>requests := requests w @ [buildApiUrl cfg d]\<rparr>))"
  by (simp add: loadPicture_begin_def setState_def Let_def ErrorComponent_render_requests
      split: option.splits prod.splits)

lemma call_loadPicture_frame:
  "currentPicture (appState (call_loadPicture rt cfg d b u)) = currentPicture (appState u) \<and>
   selectedDate (appState (call_loadPicture rt cfg d b u)) = selectedDate (appState u) \<and>
   dateInput (call_loadPicture rt cfg d b u) = dateInput u"
  by (simp add: call_loadPicture_def loadPicture_begin_cases loadPicture_catch_state Let_def
      case_prod_beta split: option.splits)

lemma call_loadPicture_pending:
  "pending (call_loadPicture rt cfg d b u) =
     (if fst (setState rt [Loading True, Error None] (appState u) (effects u)) = None
      then pending u @ [\<lparr>forDate = d, request = buildApiUrl cfg d, atStartup = b\<rparr>]
      else pending u) \<and>
   requests (effects (call_loadPicture rt cfg d b u)) =
     (if fst (setState rt [Loading True, Error None] (appState u) (effects u)) = None
      then requests (effects u) @ [buildApiUrl cfg d] else requests (effects u))"
  by (auto simp: call_loadPicture_def loadPicture_begin_cases loadPicture_catch_requests Let_def
      ErrorComponent_render_requests call_end_requests case_prod_beta split: option.splits)

lemma settle_failure:
  assumes "i < length (pending u)"
      and "fst (fetchPictureData_resume cfg outcome (effects u)) = Inl e"
  shows "appState (settle rt cfg i outcome u) =
           (appState u)\<lparr>loading := False, error := Some (message e)\<rparr>"
proof -
  obtain r w1 where f: "fetchPictureData_resume cfg outcome (effects u) = (r, w1)"
    by (cases "fetchPictureData_resume cfg outcome (effects u)")
  with assms(2) have r: "r = Inl e" by simp
  obtain x s1 w2 where c: "loadPicture_catch rt e (appState u) w1 = (x, s1, w2)"
    by (cases "loadPicture_catch rt e (appState u) w1")
  have "s1 = (appState u)\<lparr>loading := False, error := Some (message e)\<rparr>"
    using loadPicture_catch_state [of rt e "appState u" w1] c by simp
  then show ?thesis
    using assms(1) by (simp add: settle_def Let_def f r loadPicture_resume_def c)
qed

text \<open>
  Claim C10, as stated: when the fetch of a call of \<^verbatim>\<open>loadPicture\<close> fails,
  \<^verbatim>\<open>currentPicture\<close> and \<^verbatim>\<open>selectedDate\<close> are what they were before the call. It
  fails when calls overlap. The start-up call begins with no picture and the date
  2024-06-01; while its request is outstanding the user enters 2024-05-01 and clicks the
  fetch button, and that second call succeeds; then the request of the start-up call
  fails. The start-up call ends with the picture and the date of the other call.
\<close>

theorem overlapping_failure_counterexample:
  "currentPicture (AppState_new ''2024-06-01'') = None \<and>
   selectedDate (AppState_new ''2024-06-01'') = ''2024-06-01'' \<and>
   map forDate (pending (run offline defaultConfig ''2024-06-01''
       [DateInput ''2024-05-01'', FetchClick, Settle 1 (Fulfilled ok_picture)])) =
     [''2024-06-01''] \<and>
   error (appState (run offline defaultConfig ''2024-06-01''
       [DateInput ''2024-05-01'', FetchClick, Settle 1 (Fulfilled ok_picture),
        Settle 0 (Rejected (JsError ''TypeError'' ''Failed to fetch''))])) =
     Some ''Failed to fetch'' \<and>
   currentPicture (appState (run offline defaultConfig ''2024-06-01''
       [DateInput ''2024-05-01'', FetchClick, Settle 1 (Fulfilled ok_picture),
        Settle 0 (Rejected (JsError ''TypeError'' ''Failed to fetch''))])) =
     Some (transformResponse defaultConfig picture_sample) \<and>
   selectedDate (appState (run offline defaultConfig ''2024-06-01''
       [DateInput ''2024-05-01'', FetchClick, Settle 1 (Fulfilled ok_picture),
        Settle 0 (Rejected (JsError ''TypeError'' ''Failed to fetch''))])) =
     ''2024-05-01''"
  by code_simp

text \<open>
  Claim C10, amended: when the fetch of a call of \<^verbatim>\<open>loadPicture\<close> fails, the state
  after the call has \<^verbatim>\<open>loading = false\<close> and \<^verbatim>\<open>error\<close> set to the failure message, and
  \<^verbatim>\<open>currentPicture\<close> and \<^verbatim>\<open>selectedDate\<close> are what they were when the failure arrived;
  the first part of the call, up to the request, does not change these two fields either.
  So a call whose request settles before any other event ends with the
  \<^verbatim>\<open>currentPicture\<close> and \<^verbatim>\<open>selectedDate\<close> from before the call.
\<close>

theorem failed_load_frame:
  assumes "fst (fetchPictureData_resume cfg outcome (effects u)) = Inl e"
  shows "(i < length (pending u) \<longrightarrow>
            loading (appState (settle rt cfg i outcome u)) = False \<and>
            error (appState (settle rt cfg i outcome u)) = Some (message e) \<and>
            currentPicture (appState (settle rt cfg i outcome u)) = currentPicture (appState u) \<and>
            selectedDate (appState (settle rt cfg i outcome u)) = selectedDate (appState u)) \<and>
         currentPicture (appState (call_loadPicture rt cfg d b u)) = currentPicture (appState u) \<and>
         selectedDate (appState (call_loadPicture rt cfg d b u)) = selectedDate (appState u) \<and>
         (length (pending (call_loadPicture rt cfg d b u)) = length (pending u) + 1 \<longrightarrow>
            loading (appState (settle rt cfg (length (pending u)) outcome
                       (call_loadPicture rt cfg d b u))) = False \<and>
            error (appState (settle rt cfg (length (pending u)) outcome
                     (call_loadPicture rt cfg d b u))) = Some (message e) \<and>
            currentPicture (appState (settle rt cfg (length (pending u)) outcome
                              (call_loadPicture rt cfg d b u))) = currentPicture (appState u) \<and>
            selectedDate (appState (settle rt cfg (length (pending u)) outcome
                            (call_loadPicture rt cfg d b u))) = selectedDate (appState u))"
proof -
  have here: "appState (settle rt cfg i outcome u) =
                (appState u)\<lparr>loading := False, error := Some (message e)\<rparr>"
    if "i < length (pending u)"
    using that assms by (rule settle_failure)
  let ?u1 = "call_loadPicture rt cfg d b u"
  have "fst (fetchPictureData_resume cfg outcome (effects ?u1)) = Inl e"
    using assms by (simp add: fetchPictureData_resume_result)
  then have later: "appState (settle rt cfg (length (pending u)) outcome ?u1) =
                      (appState ?u1)\<lparr>loading := False, error := Some (message e)\<rparr>"
    if "length (pending ?u1) = length (pending u) + 1"
    using that settle_failure [of "length (pending u)" ?u1 cfg outcome e rt] by simp
  show ?thesis
    using here later call_loadPicture_frame [of rt cfg d b u] by simp
qed

theorem failed_load_frame_witness:
  "fst (fetchPictureData_resume defaultConfig (Rejected (JsError ''TypeError'' ''Failed to fetch''))
         (effects (run offline defaultConfig ''2024-06-01''
            [Settle 0 (Fulfilled ok_picture), FetchClick]))) =
     Inl (JsError ''TypeError'' ''Failed to fetch'') \<and>
   (0::nat) < length (pending (run offline defaultConfig ''2024-06-01''
       [Settle 0 (Fulfilled ok_picture), FetchClick])) \<and>
   error (appState (settle offline defaultConfig 0
       (Rejected (JsError ''TypeError'' ''Failed to fetch''))
       (run offline defaultConfig ''2024-06-01'' [Settle 0 (Fulfilled ok_picture), FetchClick]))) =
     Some ''Failed to fetch'' \<and>
   currentPicture (appState (settle offline defaultConfig 0
       (Rejected (JsError ''TypeError'' ''Failed to fetch''))
       (run offline defaultConfig ''2024-06-01'' [Settle 0 (Fulfilled ok_picture), FetchClick]))) =
     Some (transformResponse defaultConfig picture_sample) \<and>
   length (pending (call_loadPicture offline defaultConfig ''2024-05-01'' False
       (run offline defaultConfig ''2024-06-01'' [Settle 0 (Fulfilled ok_picture), FetchClick]))) =
     length (pending (run offline defaultConfig ''2024-06-01''
       [Settle 0 (Fulfilled ok_picture), FetchClick])) + 1 \<and>
   error (appState (settle offline defaultConfig 1
       (Rejected (JsError ''TypeError'' ''Failed to fetch''))
       (call_loadPicture offline defaultConfig ''2024-05-01'' False
          (run offline defaultConfig ''2024-06-01''
             [Settle 0 (Fulfilled ok_picture), FetchClick])))) =
     Some ''Failed to fetch'' \<and>
   currentPicture (appState (settle offline defaultConfig 1
       (Rejected (JsError ''TypeError'' ''Failed to fetch''))
       (call_loadPicture offline defaultConfig ''2024-05-01'' False
          (run offline defaultConfig ''2024-06-01''
             [Settle 0 (Fulfilled ok_picture), FetchClick])))) =
     Some (transformResponse defaultConfig picture_sample) \<and>
   selectedDate (appState (settle offline defaultConfig 1
       (Rejected (JsError ''TypeError'' ''Failed to fetch''))
       (call_loadPicture offline defaultConfig ''2024-05-01'' False
          (run offline defaultConfig ''2024-06-01''
             [Settle 0 (Fulfilled ok_picture), FetchClick])))) =
     ''2024-06-01''"
proof -
  let ?u = "run offline defaultConfig ''2024-06-01'' [Settle 0 (Fulfilled ok_picture), FetchClick]"
  let ?out = "Rejected (JsError ''TypeError'' ''Failed to fetch'')"
  have f: "fst (fetchPictureData_resume defaultConfig ?out (effects ?u)) =
             Inl (JsError ''TypeError'' ''Failed to fetch'')"
    by (simp add: fetchPictureData_resume_result)
  have n: "length (pending ?u) = 1"
    by code_simp
  have p: "length (pending (call_loadPicture offline defaultConfig ''2024-05-01'' False ?u)) = 2"
    by code_simp
  have s: "currentPicture (appState ?u) = Some (transformResponse defaultConfig picture_sample)"
    "selectedDate (appState ?u) = ''2024-06-01''"
    by code_simp+
  show ?thesis
    using failed_load_frame [OF f, of 0 offline "''2024-05-01''" False] f p
    by (simp add: n s)
qed

section \<open>Properties of the event-driven page\<close>

text \<open>
  A record without \<^verbatim>\<open>url\<close> is stored as the current picture. The media component throws
  when it renders it, and the message of that exception is shown as the error. When this
  happens to the call at start-up, the exception leaves the call and the body of the page
  is replaced. When it happens to a later call, the page stays, but from then on every
  \<^verbatim>\<open>setState\<close> throws: the next click on the fetch button issues no request.
\<close>

lemma record_without_url_is_stored:
  "currentPicture (appState (run offline defaultConfig ''2024-06-01''
       [Settle 0 (Fulfilled ok_empty)])) = Some (transformResponse defaultConfig []) \<and>
   bodyReplaced (effects (run offline defaultConfig ''2024-06-01''
       [Settle 0 (Fulfilled ok_empty)])) \<and>
   currentPicture (appState (run offline defaultConfig ''2024-06-01''
       [Settle 0 (Fulfilled ok_picture), FetchClick, Settle 0 (Fulfilled ok_empty)])) =
     Some (transformResponse defaultConfig []) \<and>
   error (appState (run offline defaultConfig ''2024-06-01''
       [Settle 0 (Fulfilled ok_picture), FetchClick, Settle 0 (Fulfilled ok_empty)])) =
     Some (''Cannot read properties of undefined (reading '' @ [CHR 0x27] @ ''includes'' @
           [CHR 0x27] @ '')'') \<and>
   enabled FetchClick (run offline defaultConfig ''2024-06-01''
       [Settle 0 (Fulfilled ok_picture), FetchClick, Settle 0 (Fulfilled ok_empty)]) \<and>
   pending (run offline defaultConfig ''2024-06-01''
       [Settle 0 (Fulfilled ok_picture), FetchClick, Settle 0 (Fulfilled ok_empty),
        FetchClick]) = []"
  by code_simp

text \<open>After start-up, clicks on the fetch button with nothing settled in between all stay pending.\<close>

lemma clicks_pending:
  assumes "currentPicture (appState u) = None" and "dateInput u \<noteq> []"
      and "\<not> bodyReplaced (effects u)"
  shows "length (pending (fold (step rt cfg) (replicate n FetchClick) u)) = length (pending u) + n"
  using assms
proof (induction n arbitrary: u)
  case 0
  then show ?case by simp
next
  case (Suc n)
  let ?u1 = "step rt cfg FetchClick u"
  have u1: "?u1 = call_loadPicture rt cfg (dateInput u) False u"
    using Suc.prems by (simp add: step_def handleFetchClick_def)
  have ok: "fst (setState rt [Loading True, Error None] (appState u) (effects u)) = None"
    using Suc.prems by (simp add: setState_exception notifySubscribers_def)
  have "length (pending ?u1) = length (pending u) + 1"
    using call_loadPicture_pending [of rt cfg "dateInput u" False u] ok u1 by simp
  moreover have "currentPicture (appState ?u1) = None" "dateInput ?u1 \<noteq> []"
    using call_loadPicture_frame [of rt cfg "dateInput u" False u] Suc.prems u1 by simp_all
  moreover have "\<not> bodyReplaced (effects ?u1)"
    using Suc.prems ok
    by (simp add: u1 call_loadPicture_def loadPicture_begin_cases ErrorComponent_render_def)
  ultimately show ?case
    using Suc.IH [of ?u1] by simp
qed

lemma clicks_after_startup:
  assumes "today \<noteq> []"
  shows "length (pending (run rt cfg today (replicate n FetchClick))) = n + 1"
proof -
  let ?u0 = "\<lparr>appState = AppState_new today, dateInput = today, pending = [],
              effects = \<lparr>requests = [], console = [], retryButton = False,
                         bodyReplaced = False\<rparr>\<rparr>"
  have ok: "fst (setState rt [Loading True, Error None] (appState ?u0) (effects ?u0)) = None"
    by (simp add: setState_exception notifySubscribers_def AppState_new_def)
  have "length (pending (initializeApp rt cfg today)) = 1"
    using call_loadPicture_pending [of rt cfg today True ?u0] ok by (simp add: initializeApp_def)
  moreover have "currentPicture (appState (initializeApp rt cfg today)) = None"
    "dateInput (initializeApp rt cfg today) \<noteq> []"
    using call_loadPicture_frame [of rt cfg today True ?u0] assms
    by (simp_all add: initializeApp_def AppState_new_def)
  moreover have "\<not> bodyReplaced (effects (initializeApp rt cfg today))"
    using ok
    by (simp add: initializeApp_def call_loadPicture_def loadPicture_begin_cases
        ErrorComponent_render_def AppState_new_def)
  ultimately show ?thesis
    using clicks_pending [of "initializeApp rt cfg today" rt cfg n] by (simp add: run_def)
qed

text \<open>
  Claim C7, as stated: in every reachable execution at most one fetch is outstanding. It
  fails: a click on the fetch button while the request of the initial load is still
  outstanding starts a second call, and two calls of \<open>fetchPictureData\<close> are pending.
\<close>

theorem overlapping_fetch_counterexample:
  "length (pending (run offline defaultConfig ''2024-06-01'' [FetchClick])) = 2"
  by code_simp

text \<open>
  Claim C7, amended: the page does not limit the number of outstanding fetches. In every
  state of the page in which the user can act, an action that calls \<^verbatim>\<open>loadPicture\<close> (the
  fetch button or the Enter key with a date in the input, the today button) issues exactly
  one more request and adds exactly one call of \<open>fetchPictureData\<close> to the outstanding
  ones, however many are already pending, when no subscriber throws on the first
  \<^verbatim>\<open>setState\<close> of the call; when a subscriber throws there, the action issues no request
  and the outstanding calls stay as they are.
\<close>

theorem user_action_adds_one_call:
  assumes "load_date ev u = Some d"
  shows "pending (step rt cfg ev u) =
           (if fst (setState rt [Loading True, Error None] (appState u) (effects u)) = None
            then pending u @ [\<lparr>forDate = d, request = buildApiUrl cfg d, atStartup = False\<rparr>]
            else pending u) \<and>
         requests (effects (step rt cfg ev u)) =
           (if fst (setState rt [Loading True, Error None] (appState u) (effects u)) = None
            then requests (effects u) @ [buildApiUrl cfg d] else requests (effects u))"
proof -
  from assms have en: "enabled ev u"
    by (simp add: load_date_def split: if_splits)
  show ?thesis
  proof (cases ev)
    case FetchClick
    with assms have "dateInput u \<noteq> []" "d = dateInput u"
      by (auto simp: load_date_def split: if_splits)
    then show ?thesis
      using FetchClick en call_loadPicture_pending [of rt cfg d False u]
      by (simp add: step_def handleFetchClick_def)
  next
    case (TodayClick today)
    with assms have "d = today"
      by (simp add: load_date_def split: if_splits)
    then show ?thesis
      using TodayClick en call_loadPicture_pending [of rt cfg d False "u\<lparr>dateInput := today\<rparr>"]
      by (simp add: step_def handleTodayClick_def)
  next
    case (KeyPress k)
    with assms have "k = ''Enter''" "dateInput u \<noteq> []" "d = dateInput u"
      by (auto simp: load_date_def split: if_splits)
    then show ?thesis
      using KeyPress en call_loadPicture_pending [of rt cfg d False u]
      by (simp add: step_def handleFetchClick_def)
  next
    case (DateInput v)
    with assms show ?thesis by (simp add: load_date_def split: if_splits)
  next
    case (DemoClick today)
    with assms show ?thesis by (simp add: load_date_def split: if_splits)
  next
    case (Settle i outcome)
    with assms show ?thesis by (simp add: load_date_def split: if_splits)
  qed
qed

theorem user_action_adds_one_call_witness:
  "load_date FetchClick (run offline defaultConfig ''2024-06-01'' [Settle 0 (Fulfilled ok_picture),
       TodayClick ''2024-06-02'']) = Some ''2024-06-02'' \<and>
   fst (setState offline [Loading True, Error None]
     (appState (run offline defaultConfig ''2024-06-01'' [Settle 0 (Fulfilled ok_picture),
        TodayClick ''2024-06-02'']))
     (effects (run offline defaultConfig ''2024-06-01'' [Settle 0 (Fulfilled ok_picture),
        TodayClick ''2024-06-02'']))) = None \<and>
   map forDate (pending (step offline defaultConfig FetchClick
     (run offline defaultConfig ''2024-06-01'' [Settle 0 (Fulfilled ok_picture),
        TodayClick ''2024-06-02'']))) = [''2024-06-02'', ''2024-06-02'']"
proof -
  let ?u = "run offline defaultConfig ''2024-06-01''
              [Settle 0 (Fulfilled ok_picture), TodayClick ''2024-06-02'']"
  have a: "load_date FetchClick ?u = Some ''2024-06-02''"
    by code_simp
  have b: "fst (setState offline [Loading True, Error None] (appState ?u) (effects ?u)) = None"
    by code_simp
  have c: "map forDate (pending ?u) = [''2024-06-02'']"
    by code_simp
  show ?thesis
    using user_action_adds_one_call [OF a, of offline defaultConfig] a b by (simp add: c)
qed

end
